theory Spec2Isabelle
  imports Main "HOL-Library.Word"
begin

section \<open>URLs as the cookie and session code reads them\<close>

text \<open>
  The code only reads three accessors of a \<^verbatim>\<open>urls::url_view\<close>: \<^verbatim>\<open>scheme_id()\<close>,
  \<^verbatim>\<open>host()\<close> and \<^verbatim>\<open>path()\<close>. A URL is modelled as the record of what these return.
\<close>

datatype scheme = scheme_none | scheme_unknown | scheme_ftp | scheme_file
  | scheme_http | scheme_https | scheme_ws | scheme_wss

record url_view =
  url_scheme_id :: scheme
  url_host :: string
  url_path :: string

section \<open>Cookies (cookies.hpp, cookies.cpp)\<close>

datatype same_site_t = same_site_none | same_site_lax | same_site_strict

text \<open>
  \<^verbatim>\<open>struct cookie\<close>. A \<^verbatim>\<open>system_clock::time_point\<close> is an integer number of ticks.
\<close>

record cookie =
  cookie_name :: string
  cookie_value :: string
  cookie_domain :: string
  cookie_path :: string
  cookie_expires :: "int option"
  cookie_secure :: bool
  cookie_http_only :: bool
  cookie_same_site :: same_site_t

text \<open>The member initialisers of \<^verbatim>\<open>struct cookie\<close>: what \<^verbatim>\<open>cookie c;\<close> holds.\<close>

definition cookie_default :: cookie where
  "cookie_default =
     \<lparr>cookie_name = [], cookie_value = [], cookie_domain = [], cookie_path = ''/'',
      cookie_expires = None, cookie_secure = False, cookie_http_only = False,
      cookie_same_site = same_site_lax\<rparr>"

text \<open>\<^verbatim>\<open>cookie::is_expired\<close>; the clock reading \<^verbatim>\<open>system_clock::now()\<close> is the parameter \<open>now\<close>.\<close>

definition is_expired :: "int \<Rightarrow> cookie \<Rightarrow> bool" where
  "is_expired now c =
     (case cookie_expires c of
        None \<Rightarrow> False
      | Some t \<Rightarrow> now > t)"

text \<open>\<^verbatim>\<open>std::string::starts_with\<close>.\<close>

definition starts_with :: "string \<Rightarrow> string \<Rightarrow> bool" where
  "starts_with s p = (take (length p) s = p)"

text \<open>
  \<^verbatim>\<open>cookie::matches\<close>. The domain test returns false only when the host differs from the
  domain and is not longer than it; a longer host falls through to the path test.
\<close>

definition matches :: "int \<Rightarrow> cookie \<Rightarrow> url_view \<Rightarrow> bool" where
  "matches now c url =
     (if is_expired now c then False
      else if cookie_secure c \<and> url_scheme_id url \<noteq> scheme_https then False
      else if cookie_domain c \<noteq> url_host url
              \<and> length (url_host url) \<le> length (cookie_domain c) then False
      else
        (let req_path = (if url_path url = [] then ''/'' else url_path url)
         in if \<not> starts_with req_path (cookie_path c) then False else True))"

text \<open>\<^verbatim>\<open>class cookie_jar\<close> holds one \<^verbatim>\<open>std::vector<cookie>\<close>, in insertion order.\<close>

type_synonym cookie_jar = "cookie list"

text \<open>
  \<^verbatim>\<open>std::find_if\<close> followed by \<^verbatim>\<open>erase\<close> of the iterator when it is not \<^verbatim>\<open>end()\<close>:
  the first element satisfying the predicate is removed, the others keep their order.
\<close>

fun erase_first :: "('a \<Rightarrow> bool) \<Rightarrow> 'a list \<Rightarrow> 'a list" where
  "erase_first P [] = []"
| "erase_first P (x # xs) = (if P x then xs else x # erase_first P xs)"

text \<open>The lambda of \<^verbatim>\<open>cookie_jar::set\<close>: same name, domain and path.\<close>

definition same_key :: "cookie \<Rightarrow> cookie \<Rightarrow> bool" where
  "same_key c existing =
     (cookie_name existing = cookie_name c
      \<and> cookie_domain existing = cookie_domain c
      \<and> cookie_path existing = cookie_path c)"

text \<open>\<^verbatim>\<open>cookie_jar::set\<close>.\<close>

definition cookie_jar_set :: "cookie \<Rightarrow> cookie_jar \<Rightarrow> cookie_jar" where
  "cookie_jar_set c jar = erase_first (same_key c) jar @ [c]"

text \<open>\<^verbatim>\<open>std::string_view::find(char)\<close>: the first position of the character, \<open>None\<close> for \<^verbatim>\<open>npos\<close>.\<close>

fun find_char :: "char \<Rightarrow> string \<Rightarrow> nat option" where
  "find_char ch [] = None"
| "find_char ch (x # xs) =
     (if x = ch then Some 0
      else (case find_char ch xs of None \<Rightarrow> None | Some i \<Rightarrow> Some (Suc i)))"

text \<open>
  \<^verbatim>\<open>cookie_jar::set_from_header\<close>. \<^verbatim>\<open>substr(0, npos)\<close> is the whole string. The name and
  the value are the raw substrings around the first \<^verbatim>\<open>=\<close>; the path is always \<^verbatim>\<open>"/"\<close>; the
  attributes after the first \<^verbatim>\<open>;\<close> are not read.
\<close>

definition set_from_header :: "string \<Rightarrow> url_view \<Rightarrow> cookie_jar \<Rightarrow> cookie_jar" where
  "set_from_header set_cookie_header request_url jar =
     (let name_value =
            (case find_char (CHR '';'') set_cookie_header of
               None \<Rightarrow> set_cookie_header
             | Some semi \<Rightarrow> take semi set_cookie_header)
      in case find_char (CHR ''='') name_value of
           None \<Rightarrow> jar
         | Some eq \<Rightarrow>
             cookie_jar_set
               (cookie_default
                  \<lparr>cookie_name := take eq name_value,
                   cookie_value := drop (eq + 1) name_value,
                   cookie_domain := url_host request_url,
                   cookie_path := ''/''\<rparr>)
               jar)"

text \<open>\<^verbatim>\<open>cookie_jar::get_cookies\<close>: the matching cookies in jar order; there is no sort.\<close>

definition get_cookies :: "int \<Rightarrow> cookie_jar \<Rightarrow> url_view \<Rightarrow> cookie list" where
  "get_cookies now jar url = filter (\<lambda>c. matches now c url) jar"

text \<open>The loop of \<^verbatim>\<open>cookie_jar::get_cookie_header\<close>, with its \<^verbatim>\<open>first\<close> flag and the stream.\<close>

fun header_loop :: "cookie list \<Rightarrow> bool \<Rightarrow> string \<Rightarrow> string" where
  "header_loop [] first oss = oss"
| "header_loop (c # cs) first oss =
     header_loop cs False
       ((if \<not> first then oss @ ''; '' else oss) @ cookie_name c @ ''='' @ cookie_value c)"

definition get_cookie_header :: "int \<Rightarrow> cookie_jar \<Rightarrow> url_view \<Rightarrow> string" where
  "get_cookie_header now jar url =
     (let cookies = get_cookies now jar url
      in if cookies = [] then [] else header_loop cookies True [])"




section \<open>HTTP messages of Boost.HTTP, as far as this code uses them\<close>

text \<open>
  \<^verbatim>\<open>http::field\<close> names a header; the code calls \<^verbatim>\<open>set(field, value)\<close>, which leaves the
  message with exactly that value under the field. A header block is a map from fields to
  values.
\<close>

datatype field = field_authorization | field_cookie | field_host | field_content_type
  | field_user_agent | field_location | field_set_cookie | field_www_authenticate

type_synonym fields = "field \<rightharpoonup> string"

datatype http_method = method_get | method_post | method_put | method_patch
  | method_delete | method_head | method_options

record http_request =
  req_method :: http_method
  req_target :: string
  req_fields :: fields

definition request_set :: "field \<Rightarrow> string \<Rightarrow> http_request \<Rightarrow> http_request" where
  "request_set f v req = req\<lparr>req_fields := (req_fields req)(f \<mapsto> v)\<rparr>"

text \<open>
  \<^verbatim>\<open>http::response\<close>: the status code is an \<^verbatim>\<open>unsigned short\<close>. A default-constructed
  message is \<^verbatim>\<open>HTTP/1.1 200 OK\<close> with no headers.
\<close>

record http_response =
  msg_status_int :: "16 word"
  msg_reason :: string
  msg_fields :: fields

definition http_response_default :: http_response where
  "http_response_default = \<lparr>msg_status_int = 200, msg_reason = ''OK'', msg_fields = Map.empty\<rparr>"

section \<open>Authentication (auth.hpp, auth.cpp)\<close>

record http_basic_auth =
  basic_username :: string
  basic_password :: string
  basic_encoded :: string

text \<open>The constructor stores the credentials; \<^verbatim>\<open>encoded_\<close> stays empty.\<close>

definition http_basic_auth :: "string \<Rightarrow> string \<Rightarrow> http_basic_auth" where
  "http_basic_auth username password =
     \<lparr>basic_username = username, basic_password = password, basic_encoded = []\<rparr>"

text \<open>\<^verbatim>\<open>http_basic_auth::apply\<close>: the header value is a fixed string literal.\<close>

definition http_basic_auth_apply :: "http_basic_auth \<Rightarrow> http_request \<Rightarrow> http_request" where
  "http_basic_auth_apply a req = request_set field_authorization ''Basic <encoded>'' req"

record http_digest_auth =
  digest_username :: string
  digest_password :: string
  digest_realm :: string
  digest_nonce :: string
  digest_opaque :: string
  digest_qop :: string
  digest_algorithm :: string
  digest_nc :: "32 word"

definition http_digest_auth :: "string \<Rightarrow> string \<Rightarrow> http_digest_auth" where
  "http_digest_auth username password =
     \<lparr>digest_username = username, digest_password = password, digest_realm = [],
      digest_nonce = [], digest_opaque = [], digest_qop = [], digest_algorithm = [],
      digest_nc = 0\<rparr>"

text \<open>\<^verbatim>\<open>http_digest_auth::apply\<close>: returns at once while no nonce is stored.\<close>

definition http_digest_auth_apply :: "http_digest_auth \<Rightarrow> http_request \<Rightarrow> http_request" where
  "http_digest_auth_apply d req =
     (if digest_nonce d = [] then req
      else request_set field_authorization ''Digest <computed>'' req)"

text \<open>\<^verbatim>\<open>http_digest_auth::process_challenge\<close> discards its argument and stores nothing.\<close>

definition process_challenge :: "string \<Rightarrow> http_digest_auth \<Rightarrow> http_digest_auth" where
  "process_challenge www_authenticate d = d"

record http_bearer_auth =
  bearer_token :: string

definition http_bearer_auth_apply :: "http_bearer_auth \<Rightarrow> http_request \<Rightarrow> http_request" where
  "http_bearer_auth_apply b req =
     request_set field_authorization (''Bearer '' @ bearer_token b) req"

text \<open>The three classes derived from \<^verbatim>\<open>auth_base\<close>, and the virtual call of \<^verbatim>\<open>apply\<close>.\<close>

datatype auth_base = Basic_auth http_basic_auth | Digest_auth http_digest_auth
  | Bearer_auth http_bearer_auth

fun auth_apply :: "auth_base \<Rightarrow> http_request \<Rightarrow> http_request" where
  "auth_apply (Basic_auth a) req = http_basic_auth_apply a req"
| "auth_apply (Digest_auth d) req = http_digest_auth_apply d req"
| "auth_apply (Bearer_auth b) req = http_bearer_auth_apply b req"

subsection \<open>What RFC 7617 asks of Basic\<close>

text \<open>
  The credentials the specification describes, for comparison with \<open>http_basic_auth_apply\<close>:
  \<^verbatim>\<open>Basic\<close>, a space, and the base64 text (RFC 4648, with padding) of
  \<^verbatim>\<open>username ":" password\<close>.
\<close>

definition base64_alphabet :: string where
  "base64_alphabet = ''ABCDEFGHIJKLMNOPQRSTUVWXYZabcdefghijklmnopqrstuvwxyz0123456789+/''"

definition base64_digit :: "nat \<Rightarrow> char" where
  "base64_digit n = base64_alphabet ! (n mod 64)"

fun base64_bytes :: "nat list \<Rightarrow> string" where
  "base64_bytes [] = []"
| "base64_bytes [a] =
     [base64_digit (a div 4), base64_digit ((a mod 4) * 16), CHR ''='', CHR ''='']"
| "base64_bytes [a, b] =
     [base64_digit (a div 4), base64_digit ((a mod 4) * 16 + b div 16),
      base64_digit ((b mod 16) * 4), CHR ''='']"
| "base64_bytes (a # b # c # rest) =
     [base64_digit (a div 4), base64_digit ((a mod 4) * 16 + b div 16),
      base64_digit ((b mod 16) * 4 + c div 64), base64_digit (c mod 64)]
     @ base64_bytes rest"

definition base64_encode :: "string \<Rightarrow> string" where
  "base64_encode s = base64_bytes (map of_char s)"

definition spec_basic_authorization :: "string \<Rightarrow> string \<Rightarrow> string" where
  "spec_basic_authorization username password =
     ''Basic '' @ base64_encode (username @ '':'' @ password)"

section \<open>Errors (error.hpp)\<close>

datatype error = success | invalid_url | invalid_scheme | resolve_failed
  | connection_failed | tls_handshake_failed | timeout | too_many_redirects
  | body_too_large | invalid_response | connection_closed | cancelled | not_implemented

text \<open>The enumerators count up from \<^verbatim>\<open>success = 0\<close>.\<close>

fun error_value :: "error \<Rightarrow> int" where
  "error_value success = 0"
| "error_value invalid_url = 1"
| "error_value invalid_scheme = 2"
| "error_value resolve_failed = 3"
| "error_value connection_failed = 4"
| "error_value tls_handshake_failed = 5"
| "error_value timeout = 6"
| "error_value too_many_redirects = 7"
| "error_value body_too_large = 8"
| "error_value invalid_response = 9"
| "error_value connection_closed = 10"
| "error_value cancelled = 11"
| "error_value not_implemented = 12"

text \<open>A \<^verbatim>\<open>std::error_code\<close>: the integer and the name of its category.\<close>

record error_code =
  ec_value :: int
  ec_category :: string

definition make_error_code :: "error \<Rightarrow> error_code" where
  "make_error_code e = \<lparr>ec_value = error_value e, ec_category = ''boost.burl''\<rparr>"

text \<open>\<^verbatim>\<open>std::to_string\<close> on a non-negative value: its decimal digits.\<close>

definition digit_char :: "nat \<Rightarrow> char" where
  "digit_char d = ''0123456789'' ! (d mod 10)"

fun to_string :: "nat \<Rightarrow> string" where
  "to_string n = (if n < 10 then [digit_char n] else to_string (n div 10) @ [digit_char (n mod 10)])"

declare to_string.simps [simp del]

record http_error =
  status_code :: "16 word"
  error_reason :: string
  error_url :: string
  what :: string

text \<open>The constructor \<^verbatim>\<open>http_error::http_error\<close>.\<close>

definition make_http_error :: "16 word \<Rightarrow> string \<Rightarrow> string \<Rightarrow> http_error" where
  "make_http_error code reason_phrase url_text =
     \<lparr>status_code = code, error_reason = reason_phrase, error_url = url_text,
      what = to_string (unat code) @ '' '' @ reason_phrase @ '': '' @ url_text\<rparr>"

section \<open>Responses (response.hpp)\<close>

text \<open>
  \<^verbatim>\<open>template<class Body> struct response\<close>; \<open>url\<close> holds the text \<^verbatim>\<open>url.buffer()\<close> returns,
  \<open>elapsed\<close> is in milliseconds.
\<close>

datatype 'b response = Response
  (message: http_response)
  (body: 'b)
  (url: string)
  (elapsed: int)
  (history: "'b response list")

definition status_int :: "'b response \<Rightarrow> 16 word" where
  "status_int r = msg_status_int (message r)"

definition reason :: "'b response \<Rightarrow> string" where
  "reason r = msg_reason (message r)"

definition ok :: "'b response \<Rightarrow> bool" where
  "ok r = (status_int r < 400)"

definition is_redirect :: "'b response \<Rightarrow> bool" where
  "is_redirect r =
     (let s = status_int r in s = 301 \<or> s = 302 \<or> s = 303 \<or> s = 307 \<or> s = 308)"

text \<open>
  \<^verbatim>\<open>response::raise_for_status\<close>: the thrown \<^verbatim>\<open>http_error\<close> is the left injection, a normal
  return the right one. The method is \<^verbatim>\<open>const\<close>: the response is not changed.
\<close>

definition raise_for_status :: "'b response \<Rightarrow> http_error + unit" where
  "raise_for_status r =
     (if status_int r \<ge> 400
      then Inl (make_http_error (status_int r) (reason r) (url r))
      else Inr ())"

text \<open>A value-initialised \<^verbatim>\<open>response<Body>\<close>, given the value-initialised body.\<close>

definition response_default :: "'b \<Rightarrow> 'b response" where
  "response_default body0 = Response http_response_default body0 [] 0 []"

text \<open>\<^verbatim>\<open>capy::any_buffer_source\<close>: empty, or a source of byte chunks.\<close>

datatype any_buffer_source = no_source | buffer_source "string list"

record streamed_response =
  sr_message :: http_response
  sr_body :: any_buffer_source
  sr_url :: string

definition streamed_response_default :: streamed_response where
  "streamed_response_default =
     \<lparr>sr_message = http_response_default, sr_body = no_source, sr_url = []\<rparr>"

text \<open>\<^verbatim>\<open>json::value\<close>; value-initialised it is null.\<close>

datatype json_value = json_null | json_bool bool | json_number int | json_string string
  | json_array "json_value list" | json_object "(string \<times> json_value) list"

section \<open>Sessions (options.hpp, session.hpp, session.cpp)\<close>

record verify_config =
  verify_peer :: bool
  ca_file :: string
  ca_path :: string
  hostname :: string


text \<open>\<^verbatim>\<open>struct request_options\<close>; durations are in milliseconds, a null \<^verbatim>\<open>auth\<close> is \<open>None\<close>.\<close>

record request_options =
  opt_headers :: "fields option"
  opt_json :: "string option"
  opt_data :: "string option"
  opt_timeout :: "int option"
  opt_max_redirects :: "int option"
  opt_allow_redirects :: "bool option"
  opt_verify :: "bool option"
  opt_auth :: "auth_base option"

text \<open>
  \<^verbatim>\<open>session::impl\<close>. A pooled connection owns a socket and, for HTTPS, a TLS stream; both
  are handles here. The pools are a \<^verbatim>\<open>std::map\<close> from keys to vectors of connections.
\<close>

record pool_key =
  pk_host :: string
  pk_port :: "16 word"
  pk_https :: bool

record connection =
  conn_socket :: nat
  conn_tls :: "nat option"

record session =
  session_default_headers :: fields
  session_cookies :: cookie_jar
  session_auth :: "auth_base option"
  session_verify :: verify_config
  session_max_redirects :: int
  session_timeout :: int
  session_pools :: "pool_key \<rightharpoonup> connection list"






text \<open>
  The request operations. Each is a member function that may change the session, so each
  returns the completed \<^verbatim>\<open>io_result\<close> (the error code and the value) together with the
  session afterwards. The bodies only \<^verbatim>\<open>co_return\<close> an error code and a value-initialised
  response, or forward to another operation.
\<close>

definition session_request ::
  "http_method \<Rightarrow> url_view \<Rightarrow> request_options \<Rightarrow> session
     \<Rightarrow> (error_code \<times> string response) \<times> session" where
  "session_request method u opts s =
     ((make_error_code not_implemented, response_default []), s)"

definition session_get ::
  "url_view \<Rightarrow> request_options \<Rightarrow> session \<Rightarrow> (error_code \<times> string response) \<times> session" where
  "session_get u opts s = session_request method_get u opts s"

definition session_post ::
  "url_view \<Rightarrow> request_options \<Rightarrow> session \<Rightarrow> (error_code \<times> string response) \<times> session" where
  "session_post u opts s = session_request method_post u opts s"

definition session_put ::
  "url_view \<Rightarrow> request_options \<Rightarrow> session \<Rightarrow> (error_code \<times> string response) \<times> session" where
  "session_put u opts s = session_request method_put u opts s"

definition session_patch ::
  "url_view \<Rightarrow> request_options \<Rightarrow> session \<Rightarrow> (error_code \<times> string response) \<times> session" where
  "session_patch u opts s = session_request method_patch u opts s"

definition session_delete ::
  "url_view \<Rightarrow> request_options \<Rightarrow> session \<Rightarrow> (error_code \<times> string response) \<times> session" where
  "session_delete u opts s = session_request method_delete u opts s"

definition session_head ::
  "url_view \<Rightarrow> request_options \<Rightarrow> session \<Rightarrow> (error_code \<times> string response) \<times> session" where
  "session_head u opts s = session_request method_head u opts s"

definition session_options ::
  "url_view \<Rightarrow> request_options \<Rightarrow> session \<Rightarrow> (error_code \<times> string response) \<times> session" where
  "session_options u opts s = session_request method_options u opts s"

definition session_get_as_string ::
  "url_view \<Rightarrow> request_options \<Rightarrow> session \<Rightarrow> (error_code \<times> string response) \<times> session" where
  "session_get_as_string u opts s = session_get u opts s"

definition session_get_as_json ::
  "url_view \<Rightarrow> request_options \<Rightarrow> session
     \<Rightarrow> (error_code \<times> json_value response) \<times> session" where
  "session_get_as_json u opts s =
     ((make_error_code not_implemented, response_default json_null), s)"

definition session_post_as_json ::
  "url_view \<Rightarrow> request_options \<Rightarrow> session
     \<Rightarrow> (error_code \<times> json_value response) \<times> session" where
  "session_post_as_json u opts s =
     ((make_error_code not_implemented, response_default json_null), s)"

text \<open>
  The templates over \<^verbatim>\<open>as_type_t<T>\<close>: \<open>t0\<close> is the value-initialised \<^verbatim>\<open>T\<close>, which C++
  takes from the type.
\<close>

definition session_get_as_type ::
  "'b \<Rightarrow> url_view \<Rightarrow> request_options \<Rightarrow> session \<Rightarrow> (error_code \<times> 'b response) \<times> session" where
  "session_get_as_type t0 u opts s =
     ((make_error_code not_implemented, response_default t0), s)"

definition session_post_as_type ::
  "'b \<Rightarrow> url_view \<Rightarrow> request_options \<Rightarrow> session \<Rightarrow> (error_code \<times> 'b response) \<times> session" where
  "session_post_as_type t0 u opts s =
     ((make_error_code not_implemented, response_default t0), s)"

definition session_get_streamed ::
  "url_view \<Rightarrow> request_options \<Rightarrow> session \<Rightarrow> (error_code \<times> streamed_response) \<times> session" where
  "session_get_streamed u opts s =
     ((make_error_code not_implemented, streamed_response_default), s)"

definition session_post_streamed ::
  "url_view \<Rightarrow> request_options \<Rightarrow> session \<Rightarrow> (error_code \<times> streamed_response) \<times> session" where
  "session_post_streamed u opts s =
     ((make_error_code not_implemented, streamed_response_default), s)"


subsection \<open>One call on a session\<close>




section \<open>Notions used to state the properties\<close>



text \<open>Path lengths never increase along the list: the order the specification asks for.\<close>

fun path_length_descending :: "cookie list \<Rightarrow> bool" where
  "path_length_descending [] = True"
| "path_length_descending [c] = True"
| "path_length_descending (c # d # cs) =
     (length (cookie_path c) \<ge> length (cookie_path d) \<and> path_length_descending (d # cs))"

text \<open>The specification's form of the header: the pairs joined with \<^verbatim>\<open>"; "\<close>.\<close>

definition cookie_pair :: "cookie \<Rightarrow> string" where
  "cookie_pair c = cookie_name c @ ''='' @ cookie_value c"

fun join :: "string \<Rightarrow> string list \<Rightarrow> string" where
  "join sep [] = []"
| "join sep [x] = x"
| "join sep (x # y # ys) = x @ sep @ join sep (y # ys)"

text \<open>
  The specification's reading of a \<^verbatim>\<open>Set-Cookie\<close> value, for comparison with
  \<open>set_from_header\<close>: surrounding whitespace trimmed, and the default path the request
  path up to its last \<^verbatim>\<open>/\<close>.
\<close>

definition is_space :: "char \<Rightarrow> bool" where
  "is_space ch = (ch = CHR '' '' \<or> ch = CHR 0x09)"

definition trim :: "string \<Rightarrow> string" where
  "trim s = rev (dropWhile is_space (rev (dropWhile is_space s)))"

fun last_slash :: "string \<Rightarrow> nat option" where
  "last_slash s =
     (case find_char (CHR ''/'') (rev s) of
        None \<Rightarrow> None
      | Some i \<Rightarrow> Some (length s - 1 - i))"

definition spec_default_path :: "string \<Rightarrow> string" where
  "spec_default_path request_path =
     (case last_slash request_path of
        None \<Rightarrow> ''/''
      | Some i \<Rightarrow> take i request_path)"

section \<open>Domain matching\<close>

text \<open>
  Claim C1. A cookie with domain \<^verbatim>\<open>example.com\<close> is to match the hosts \<^verbatim>\<open>example.com\<close>
  and \<^verbatim>\<open>api.example.com\<close> and to be refused for \<^verbatim>\<open>notexample.com\<close> and
  \<^verbatim>\<open>example.com.evil.com\<close>. The code accepts all four: for an unexpired, non-secure cookie
  with path \<^verbatim>\<open>/\<close>, \<open>matches\<close> is true for each of the four hosts, and \<open>get_cookies\<close>
  returns the cookie for a request to \<^verbatim>\<open>notexample.com\<close>.
\<close>

theorem matches_accepts_unrelated_hosts:
  "matches now (cookie_default\<lparr>cookie_name := ''s'', cookie_value := ''1'', cookie_domain := ''example.com''\<rparr>)
     \<lparr>url_scheme_id = scheme_http, url_host = ''example.com'', url_path = ''/''\<rparr>
   \<and> matches now (cookie_default\<lparr>cookie_name := ''s'', cookie_value := ''1'', cookie_domain := ''example.com''\<rparr>)
     \<lparr>url_scheme_id = scheme_http, url_host = ''api.example.com'', url_path = ''/''\<rparr>
   \<and> matches now (cookie_default\<lparr>cookie_name := ''s'', cookie_value := ''1'', cookie_domain := ''example.com''\<rparr>)
     \<lparr>url_scheme_id = scheme_http, url_host = ''notexample.com'', url_path = ''/''\<rparr>
   \<and> matches now (cookie_default\<lparr>cookie_name := ''s'', cookie_value := ''1'', cookie_domain := ''example.com''\<rparr>)
     \<lparr>url_scheme_id = scheme_http, url_host = ''example.com.evil.com'', url_path = ''/''\<rparr>
   \<and> get_cookies now
        [cookie_default\<lparr>cookie_name := ''s'', cookie_value := ''1'', cookie_domain := ''example.com''\<rparr>]
        \<lparr>url_scheme_id = scheme_http, url_host = ''notexample.com'', url_path = ''/''\<rparr>
      = [cookie_default\<lparr>cookie_name := ''s'', cookie_value := ''1'', cookie_domain := ''example.com''\<rparr>]"
  by (simp add: get_cookies_def matches_def cookie_default_def is_expired_def starts_with_def)

section \<open>The cookie jar keeps one cookie per name, domain and path\<close>












section \<open>Order of the matching cookies\<close>

text \<open>
  Claim C3. The list \<open>get_cookies\<close> returns is to be ordered by path length, longest
  first. The code returns the matching cookies in insertion order: with the cookie of path
  \<^verbatim>\<open>/\<close> stored before the cookie of path \<^verbatim>\<open>/api\<close>, a request to \<^verbatim>\<open>/api\<close> gets the shorter
  path first, and the result is not descending in path length.
\<close>

theorem get_cookies_keeps_insertion_order:
  "get_cookies now
     (cookie_jar_set (cookie_default\<lparr>cookie_name := ''b'', cookie_value := ''2'', cookie_domain := ''h'', cookie_path := ''/api''\<rparr>)
       (cookie_jar_set (cookie_default\<lparr>cookie_name := ''a'', cookie_value := ''1'', cookie_domain := ''h''\<rparr>) []))
     \<lparr>url_scheme_id = scheme_http, url_host = ''h'', url_path = ''/api''\<rparr>
   = [cookie_default\<lparr>cookie_name := ''a'', cookie_value := ''1'', cookie_domain := ''h''\<rparr>,
      cookie_default\<lparr>cookie_name := ''b'', cookie_value := ''2'', cookie_domain := ''h'', cookie_path := ''/api''\<rparr>]
   \<and> \<not> path_length_descending
      (get_cookies now
        (cookie_jar_set (cookie_default\<lparr>cookie_name := ''b'', cookie_value := ''2'', cookie_domain := ''h'', cookie_path := ''/api''\<rparr>)
          (cookie_jar_set (cookie_default\<lparr>cookie_name := ''a'', cookie_value := ''1'', cookie_domain := ''h''\<rparr>) []))
        \<lparr>url_scheme_id = scheme_http, url_host = ''h'', url_path = ''/api''\<rparr>)"
  by (simp add: get_cookies_def cookie_jar_set_def same_key_def matches_def cookie_default_def
      is_expired_def starts_with_def)

section \<open>The Cookie header\<close>

lemma header_loop_append:
  "header_loop cs False oss = oss @ concat (map (\<lambda>c. ''; '' @ cookie_pair c) cs)"
  by (induction cs arbitrary: oss) (simp_all add: cookie_pair_def)

lemma join_pairs:
  "join ''; '' (map cookie_pair (c # cs)) = cookie_pair c @ concat (map (\<lambda>c. ''; '' @ cookie_pair c) cs)"
  by (induction cs arbitrary: c) simp_all

lemma header_loop_join:
  "cs \<noteq> [] \<Longrightarrow> header_loop cs True [] = join ''; '' (map cookie_pair cs)"
proof (cases cs)
  case Nil
  assume "cs \<noteq> []"
  with Nil show ?thesis by simp
next
  case (Cons c cs')
  have "header_loop (c # cs') True [] = header_loop cs' False (cookie_pair c)"
    by (simp add: cookie_pair_def)
  also have "\<dots> = cookie_pair c @ concat (map (\<lambda>c. ''; '' @ cookie_pair c) cs')"
    by (rule header_loop_append)
  also have "\<dots> = join ''; '' (map cookie_pair (c # cs'))"
    by (simp only: join_pairs)
  finally show ?thesis using Cons by simp
qed

lemma get_cookie_header_join:
  "get_cookie_header now jar u = join ''; '' (map cookie_pair (get_cookies now jar u))"
  by (cases "get_cookies now jar u = []") (simp_all add: get_cookie_header_def Let_def header_loop_join)

lemma matches_own_url:
  assumes "cookie_secure c = False" "cookie_expires c = None"
    "cookie_domain c = url_host u" "cookie_path c = url_path u"
  shows "matches now c u"
  using assms by (simp add: matches_def is_expired_def starts_with_def Let_def)

text \<open>
  Claim C4. For a cookie \<open>c\<close> that is not secure and has no expiry, stored alone in an
  empty jar, the header for a URL with the host \<open>cookie_domain c\<close>, the path
  \<open>cookie_path c\<close> and the scheme http is exactly the name, \<^verbatim>\<open>=\<close>, and the value. For any
  jar and URL without a matching cookie the header is the empty string. In every case the
  header is the pairs \<^verbatim>\<open>name=value\<close> of the matching cookies joined with \<^verbatim>\<open>"; "\<close>.
\<close>

theorem get_cookie_header_round_trip:
  "(cookie_secure c = False \<and> cookie_expires c = None \<and> cookie_domain c = url_host u
      \<and> cookie_path c = url_path u \<and> url_scheme_id u = scheme_http
      \<longrightarrow> get_cookie_header now (cookie_jar_set c []) u = cookie_name c @ ''='' @ cookie_value c)
   \<and> (get_cookies now jar u = [] \<longrightarrow> get_cookie_header now jar u = [])
   \<and> get_cookie_header now jar u = join ''; '' (map cookie_pair (get_cookies now jar u))"
proof (intro conjI impI)
  assume h: "cookie_secure c = False \<and> cookie_expires c = None \<and> cookie_domain c = url_host u
      \<and> cookie_path c = url_path u \<and> url_scheme_id u = scheme_http"
  then have "matches now c u"
    by (simp add: matches_own_url)
  then have "get_cookies now (cookie_jar_set c []) u = [c]"
    by (simp add: get_cookies_def cookie_jar_set_def)
  then show "get_cookie_header now (cookie_jar_set c []) u = cookie_name c @ ''='' @ cookie_value c"
    by (simp add: get_cookie_header_def)
next
  assume "get_cookies now jar u = []"
  then show "get_cookie_header now jar u = []"
    by (simp add: get_cookie_header_def)
next
  show "get_cookie_header now jar u = join ''; '' (map cookie_pair (get_cookies now jar u))"
    by (rule get_cookie_header_join)
qed

text \<open>
  One cookie \<^verbatim>\<open>s=1\<close> for host \<^verbatim>\<open>h\<close> and path \<^verbatim>\<open>/a\<close>; a jar whose only cookie belongs to
  another, equally long host; and a jar with two matching cookies.
\<close>

theorem get_cookie_header_round_trip_witness:
  "get_cookie_header 0
     (cookie_jar_set (cookie_default\<lparr>cookie_name := ''s'', cookie_value := ''1'', cookie_domain := ''h'', cookie_path := ''/a''\<rparr>) [])
     \<lparr>url_scheme_id = scheme_http, url_host = ''h'', url_path = ''/a''\<rparr>
   = ''s=1''
   \<and> get_cookie_header 0
     [cookie_default\<lparr>cookie_name := ''s'', cookie_value := ''1'', cookie_domain := ''other.example''\<rparr>]
     \<lparr>url_scheme_id = scheme_http, url_host = ''h'', url_path = ''/a''\<rparr>
   = []
   \<and> get_cookie_header 0
     [cookie_default\<lparr>cookie_name := ''s'', cookie_value := ''1'', cookie_domain := ''h''\<rparr>,
      cookie_default\<lparr>cookie_name := ''t'', cookie_value := ''2'', cookie_domain := ''h'', cookie_path := ''/a''\<rparr>]
     \<lparr>url_scheme_id = scheme_http, url_host = ''h'', url_path = ''/a''\<rparr>
   = ''s=1; t=2''"
proof -
  let ?c = "cookie_default\<lparr>cookie_name := ''s'', cookie_value := ''1'', cookie_domain := ''h'', cookie_path := ''/a''\<rparr>"
  let ?u = "\<lparr>url_scheme_id = scheme_http, url_host = ''h'', url_path = ''/a''\<rparr>"
  let ?none = "[cookie_default\<lparr>cookie_name := ''s'', cookie_value := ''1'', cookie_domain := ''other.example''\<rparr>]"
  let ?two = "[cookie_default\<lparr>cookie_name := ''s'', cookie_value := ''1'', cookie_domain := ''h''\<rparr>,
      cookie_default\<lparr>cookie_name := ''t'', cookie_value := ''2'', cookie_domain := ''h'', cookie_path := ''/a''\<rparr>]"
  have h: "cookie_secure ?c = False \<and> cookie_expires ?c = None \<and> cookie_domain ?c = url_host ?u
      \<and> cookie_path ?c = url_path ?u \<and> url_scheme_id ?u = scheme_http"
    by (simp add: cookie_default_def)
  have n: "get_cookies 0 ?none ?u = []"
    by (simp add: get_cookies_def matches_def cookie_default_def is_expired_def)
  have m: "get_cookies 0 ?two ?u = ?two"
    by (simp add: get_cookies_def matches_def cookie_default_def is_expired_def starts_with_def)
  have one: "get_cookie_header 0 (cookie_jar_set ?c []) ?u = cookie_name ?c @ ''='' @ cookie_value ?c"
    using get_cookie_header_round_trip [of ?c ?u 0 ?none] h by blast
  have empty: "get_cookie_header 0 ?none ?u = []"
    using get_cookie_header_round_trip [of ?c ?u 0 ?none] n by blast
  have joined: "get_cookie_header 0 ?two ?u = join ''; '' (map cookie_pair (get_cookies 0 ?two ?u))"
    using get_cookie_header_round_trip [of ?c ?u 0 ?two] by blast
  have "get_cookie_header 0 ?two ?u = ''s=1; t=2''"
    unfolding joined m by (simp add: cookie_pair_def cookie_default_def)
  with one empty show ?thesis
    by (simp add: cookie_default_def)
qed

section \<open>Parsing Set-Cookie\<close>

text \<open>
  Claim C5. The name and the value of a \<^verbatim>\<open>Set-Cookie\<close> value are to be trimmed of
  surrounding whitespace, and without a \<^verbatim>\<open>Path\<close> attribute the path is to be the request
  path up to its last \<^verbatim>\<open>/\<close>. For the header \<^verbatim>\<open>" sid = abc"\<close> received from
  \<^verbatim>\<open>http://example.com/docs/page\<close> the code stores the name \<^verbatim>\<open>" sid "\<close>, the value
  \<^verbatim>\<open>" abc"\<close> and the path \<^verbatim>\<open>/\<close>, where trimming gives \<^verbatim>\<open>sid\<close> and \<^verbatim>\<open>abc\<close> and the default
  path is \<^verbatim>\<open>/docs\<close>.
\<close>

theorem set_from_header_keeps_whitespace_and_root_path:
  "set_from_header '' sid = abc'' \<lparr>url_scheme_id = scheme_http, url_host = ''example.com'', url_path = ''/docs/page''\<rparr> []
     = [cookie_default\<lparr>cookie_name := '' sid '', cookie_value := '' abc'',
          cookie_domain := ''example.com'', cookie_path := ''/''\<rparr>]
   \<and> trim '' sid '' = ''sid'' \<and> trim '' abc'' = ''abc''
   \<and> spec_default_path ''/docs/page'' = ''/docs''"
  by (simp add: set_from_header_def cookie_jar_set_def cookie_default_def trim_def is_space_def
      spec_default_path_def)

section \<open>Raising for an error status\<close>

text \<open>
  Claim C6. \<open>raise_for_status\<close> throws exactly when the status code is at least 400; the
  error thrown carries the status code, the reason phrase and the URL of the response; below
  400 the call returns normally, and nothing is changed.
\<close>

theorem raise_for_status_throws_from_400:
  "(isl (raise_for_status r) \<longleftrightarrow> status_int r \<ge> 400)
   \<and> (status_int r \<ge> 400 \<longrightarrow>
        (\<exists>e. raise_for_status r = Inl e \<and> status_code e = status_int r
             \<and> error_reason e = reason r \<and> error_url e = url r))
   \<and> (status_int r < 400 \<longrightarrow> raise_for_status r = Inr ())"
  by (auto simp: raise_for_status_def make_http_error_def)

text \<open>
  A 404 response throws the error with its three fields and the message built from them;
  a response with status 399 returns.
\<close>

theorem raise_for_status_throws_from_400_witness:
  "raise_for_status
     (Response \<lparr>msg_status_int = 404, msg_reason = ''Not Found'', msg_fields = Map.empty\<rparr>
        ''gone'' ''http://h/a'' 0 [])
   = Inl \<lparr>status_code = 404, error_reason = ''Not Found'', error_url = ''http://h/a'',
          what = ''404 Not Found: http://h/a''\<rparr>
   \<and> raise_for_status
     (Response \<lparr>msg_status_int = 399, msg_reason = ''Odd'', msg_fields = Map.empty\<rparr>
        ''fine'' ''http://h/a'' 0 [])
   = Inr ()"
proof -
  let ?bad = "Response \<lparr>msg_status_int = 404, msg_reason = ''Not Found'', msg_fields = Map.empty\<rparr>
        ''gone'' ''http://h/a'' 0 []"
  let ?good = "Response \<lparr>msg_status_int = 399, msg_reason = ''Odd'', msg_fields = Map.empty\<rparr>
        ''fine'' ''http://h/a'' 0 []"
  have hb: "status_int ?bad \<ge> 400"
    by (simp add: status_int_def)
  have hg: "status_int ?good < 400"
    by (simp add: status_int_def)
  from raise_for_status_throws_from_400 [of ?bad] hb
  obtain e where e: "raise_for_status ?bad = Inl e" "status_code e = status_int ?bad"
      "error_reason e = reason ?bad" "error_url e = url ?bad"
    by blast
  have w: "what e = ''404 Not Found: http://h/a''"
    using e(1) by (auto simp: raise_for_status_def make_http_error_def status_int_def reason_def
        to_string.simps digit_char_def split: if_splits)
  have "e = \<lparr>status_code = 404, error_reason = ''Not Found'', error_url = ''http://h/a'',
          what = ''404 Not Found: http://h/a''\<rparr>"
    using e(2,3,4) w by (simp add: status_int_def reason_def)
  with e(1) have "raise_for_status ?bad = Inl \<lparr>status_code = 404, error_reason = ''Not Found'', error_url = ''http://h/a'',
          what = ''404 Not Found: http://h/a''\<rparr>"
    by simp
  moreover from raise_for_status_throws_from_400 [of ?good] hg
  have "raise_for_status ?good = Inr ()"
    by blast
  ultimately show ?thesis by simp
qed

section \<open>Authentication headers\<close>

text \<open>
  Claim C7. Basic authentication is to set \<^verbatim>\<open>Authorization\<close> to \<^verbatim>\<open>Basic\<close> followed by the
  base64 text of \<^verbatim>\<open>username:password\<close>. The code sets the literal \<^verbatim>\<open>Basic <encoded>\<close>: for
  \<^verbatim>\<open>user\<close> and \<^verbatim>\<open>pass\<close> the header is that literal where RFC 7617 gives
  \<^verbatim>\<open>Basic dXNlcjpwYXNz\<close>, and two different credentials produce the same request.
\<close>

theorem http_basic_auth_apply_placeholder:
  "req_fields
     (http_basic_auth_apply (http_basic_auth ''user'' ''pass'')
        \<lparr>req_method = method_get, req_target = ''/a'', req_fields = Map.empty\<rparr>)
     field_authorization
   = Some ''Basic <encoded>''
   \<and> spec_basic_authorization ''user'' ''pass'' = ''Basic dXNlcjpwYXNz''
   \<and> http_basic_auth_apply (http_basic_auth ''user'' ''pass'') req
     = http_basic_auth_apply (http_basic_auth ''root'' ''hunter2'') req"
  by (simp add: http_basic_auth_apply_def request_set_def spec_basic_authorization_def
      base64_encode_def base64_digit_def base64_alphabet_def)

text \<open>
  Claim C8. While no nonce is stored, as right after construction, applying Digest
  authentication returns the request unchanged: no header is added or modified.
\<close>

theorem http_digest_auth_apply_without_challenge:
  "(digest_nonce d = [] \<longrightarrow> http_digest_auth_apply d req = req)
   \<and> http_digest_auth_apply (http_digest_auth username password) req = req"
  by (simp add: http_digest_auth_apply_def http_digest_auth_def)

text \<open>
  A freshly constructed Digest object has no nonce, and a request with a \<^verbatim>\<open>Host\<close> header
  comes back as it was.
\<close>

theorem http_digest_auth_apply_without_challenge_witness:
  "digest_nonce (http_digest_auth ''user'' ''pass'') = []
   \<and> http_digest_auth_apply (http_digest_auth ''user'' ''pass'')
       \<lparr>req_method = method_get, req_target = ''/a'',
        req_fields = [field_host \<mapsto> ''h'']\<rparr>
     = \<lparr>req_method = method_get, req_target = ''/a'', req_fields = [field_host \<mapsto> ''h'']\<rparr>"
proof -
  have h: "digest_nonce (http_digest_auth ''user'' ''pass'') = []"
    by (simp add: http_digest_auth_def)
  from http_digest_auth_apply_without_challenge
    [of "http_digest_auth ''user'' ''pass''"
        "\<lparr>req_method = method_get, req_target = ''/a'', req_fields = [field_host \<mapsto> ''h'']\<rparr>"] h
  show ?thesis by blast
qed

section \<open>Closing a session\<close>


section \<open>The request operations\<close>

text \<open>
  Claim C10. Every request operation of a session (request, get, post, put, patch,
  delete, head, options, the string, JSON and typed overloads, and the two streamed ones)
  completes with the error code of \<open>not_implemented\<close>, which is 12 in the category
  \<^verbatim>\<open>boost.burl\<close>, and a value-initialised response, for every URL and all options, and
  leaves the session as it was.
\<close>

theorem session_operations_not_implemented:
  "session_request m u opts s = ((make_error_code not_implemented, response_default []), s)
   \<and> session_get u opts s = ((make_error_code not_implemented, response_default []), s)
   \<and> session_post u opts s = ((make_error_code not_implemented, response_default []), s)
   \<and> session_put u opts s = ((make_error_code not_implemented, response_default []), s)
   \<and> session_patch u opts s = ((make_error_code not_implemented, response_default []), s)
   \<and> session_delete u opts s = ((make_error_code not_implemented, response_default []), s)
   \<and> session_head u opts s = ((make_error_code not_implemented, response_default []), s)
   \<and> session_options u opts s = ((make_error_code not_implemented, response_default []), s)
   \<and> session_get_as_string u opts s = ((make_error_code not_implemented, response_default []), s)
   \<and> session_get_as_json u opts s = ((make_error_code not_implemented, response_default json_null), s)
   \<and> session_post_as_json u opts s = ((make_error_code not_implemented, response_default json_null), s)
   \<and> session_get_as_type t0 u opts s = ((make_error_code not_implemented, response_default t0), s)
   \<and> session_post_as_type t0 u opts s = ((make_error_code not_implemented, response_default t0), s)
   \<and> session_get_streamed u opts s = ((make_error_code not_implemented, streamed_response_default), s)
   \<and> session_post_streamed u opts s = ((make_error_code not_implemented, streamed_response_default), s)
   \<and> make_error_code not_implemented = \<lparr>ec_value = 12, ec_category = ''boost.burl''\<rparr>
   \<and> response_default t0
      = Response \<lparr>msg_status_int = 200, msg_reason = ''OK'', msg_fields = Map.empty\<rparr> t0 [] 0 []"
  by (simp add: session_request_def session_get_def session_post_def session_put_def
      session_patch_def session_delete_def session_head_def session_options_def
      session_get_as_string_def session_get_as_json_def session_post_as_json_def
      session_get_as_type_def session_post_as_type_def session_get_streamed_def
      session_post_streamed_def make_error_code_def response_default_def
      http_response_default_def)

end
